theory Spec2Isabelle
  imports Main
begin

section \<open>Python string and list primitives used by GridHandler\<close>

text \<open>
  The exceptions that the modelled code can raise. \<open>TypeError\<close> is what
  \<^verbatim>\<open>os.path.join()\<close> raises when it is called without any argument,
  \<open>IndexError\<close> is list indexing out of range, \<open>AttributeError\<close> is the read of a
  deleted attribute, \<open>ValueError\<close> is \<^verbatim>\<open>Pool(processes=n)\<close> with \<open>n < 1\<close>, and
  \<open>ExternalError\<close> stands for any exception raised inside an alienpy client call.
\<close>

datatype exn = TypeError | IndexError | AttributeError | ValueError | ExternalError

text \<open>\<^verbatim>\<open>s.strip("/")\<close>: drop every leading and every trailing slash.\<close>

definition strip_slash :: "string \<Rightarrow> string" where
  "strip_slash s =
     rev (dropWhile (\<lambda>c. c = CHR ''/'') (rev (dropWhile (\<lambda>c. c = CHR ''/'') s)))"

text \<open>
  \<^verbatim>\<open>s.split(sep)\<close> for a one-character separator: the result always has at least
  one element, and empty pieces are kept (\<^verbatim>\<open>"".split("/") == [""]\<close>,
  \<^verbatim>\<open>"a//b".split("/") == ["a", "", "b"]\<close>). The scan keeps the piece read so
  far, reversed, in \<open>cur\<close>.
\<close>

fun split_acc :: "char \<Rightarrow> string \<Rightarrow> string \<Rightarrow> string list" where
  "split_acc c cur [] = [rev cur]"
| "split_acc c cur (x # xs) =
     (if x = c then rev cur # split_acc c [] xs else split_acc c (x # cur) xs)"

definition split_on :: "char \<Rightarrow> string \<Rightarrow> string list" where
  "split_on c s = split_acc c [] s"

text \<open>\<^verbatim>\<open>s.startswith(p)\<close> and \<^verbatim>\<open>s.endswith(p)\<close>.\<close>

definition startswith :: "string \<Rightarrow> string \<Rightarrow> bool" where
  "startswith s p = (take (length p) s = p)"

definition endswith :: "string \<Rightarrow> string \<Rightarrow> bool" where
  "endswith s p = (length p \<le> length s \<and> drop (length s - length p) s = p)"

text \<open>\<^verbatim>\<open>sep.join(xs)\<close>.\<close>

fun str_join :: "string \<Rightarrow> string list \<Rightarrow> string" where
  "str_join sep [] = []"
| "str_join sep [x] = x"
| "str_join sep (x # y # ys) = x @ sep @ str_join sep (y # ys)"

text \<open>
  Python slicing \<^verbatim>\<open>xs[start:stop]\<close> with step 1. A negative bound counts from the
  end, and every bound is clamped into \<open>0..len(xs)\<close>, so a slice never raises.
\<close>

definition slice_index :: "nat \<Rightarrow> int \<Rightarrow> nat" where
  "slice_index n i =
     (if i < 0 then (if int n + i < 0 then 0 else nat (int n + i))
      else (if int n < i then n else nat i))"

definition py_slice :: "'a list \<Rightarrow> int \<Rightarrow> int \<Rightarrow> 'a list" where
  "py_slice xs start stop =
     drop (slice_index (length xs) start) (take (slice_index (length xs) stop) xs)"

text \<open>\<^verbatim>\<open>xs[start:]\<close>.\<close>

definition py_slice_from :: "'a list \<Rightarrow> int \<Rightarrow> 'a list" where
  "py_slice_from xs start = drop (slice_index (length xs) start) xs"

text \<open>\<^verbatim>\<open>xs[-1]\<close>: raises \<open>IndexError\<close> on the empty list.\<close>

definition py_last :: "'a list \<Rightarrow> exn + 'a" where
  "py_last xs = (case xs of [] \<Rightarrow> Inl IndexError | _ \<Rightarrow> Inr (last xs))"

text \<open>
  \<^verbatim>\<open>os.path.join(a, *p)\<close> of \<^verbatim>\<open>posixpath\<close>: a component that starts with a slash
  replaces what was joined so far; otherwise it is appended, after a slash unless the
  path so far is empty or already ends with one. The first argument is mandatory:
  the call without arguments raises \<open>TypeError\<close>.
\<close>

definition join_step :: "string \<Rightarrow> string \<Rightarrow> string" where
  "join_step path b =
     (if startswith b ''/'' then b
      else if path = [] \<or> endswith path ''/'' then path @ b
      else path @ ''/'' @ b)"

definition os_path_join :: "string list \<Rightarrow> exn + string" where
  "os_path_join args =
     (case args of [] \<Rightarrow> Inl TypeError | a # p \<Rightarrow> Inr (foldl join_step a p))"

section \<open>The handler object\<close>

text \<open>
  Python distinguishes an attribute that holds \<^verbatim>\<open>None\<close> from an attribute that
  was deleted with \<^verbatim>\<open>del\<close>; reading the latter raises \<open>AttributeError\<close>.
\<close>

datatype 'a attr = Absent | Present 'a

type_synonym addr = nat
type_synonym session = nat

text \<open>
  An element of \<^verbatim>\<open>alien_args\<close>: the configured elements are strings, and the
  constructor appends one element that is itself a list, \<^verbatim>\<open>["-T", f"{num_workers}"]\<close>,
  which \<open>ThreadsArg num_workers\<close> stands for.
\<close>

datatype arg = Arg string | ThreadsArg int

text \<open>
  The attributes of a \<^verbatim>\<open>GridHandler\<close> instance. \<open>remote_files\<close> is a reference
  to a list object of the store (or \<^verbatim>\<open>None\<close>), because \<^verbatim>\<open>download\<close>
  extends that object in place; \<open>keep_depth\<close> is an integer or \<^verbatim>\<open>None\<close>.
\<close>

record handler =
  backend :: string
  output_dir :: string
  remote_files :: "addr option"
  remote_files_glob :: "(string \<times> string) list option"
  num_workers :: int
  keep_depth :: "int option"
  alien_args :: "arg list"
  alien_session :: "session option attr"

section \<open>Mapping remote paths to local paths\<close>

text \<open>
  \<^verbatim>\<open>_unique_local_path\<close>. With \<^verbatim>\<open>keep_depth\<close> set, the directory part is
  \<^verbatim>\<open>os.path.join(*parts[-(keep_depth + 1):-1])\<close>, which is a call without
  arguments when the slice is empty.
\<close>

definition unique_local_path :: "handler \<Rightarrow> string \<Rightarrow> exn + string" where
  "unique_local_path self remote_path =
     (let parts = split_on CHR ''/'' (strip_slash remote_path) in
      case py_last parts of
        Inl e \<Rightarrow> Inl e
      | Inr filename \<Rightarrow>
          (case keep_depth self of
             None \<Rightarrow> os_path_join (output_dir self # parts)
           | Some kd \<Rightarrow>
               (case os_path_join (py_slice parts (- (kd + 1)) (- 1)) of
                  Inl e \<Rightarrow> Inl e
                | Inr sub_path \<Rightarrow> os_path_join [output_dir self, sub_path, filename])))"

text \<open>
  \<^verbatim>\<open>_auto_unique_path\<close>. The set \<^verbatim>\<open>seen\<close> is a local variable that starts
  empty in every call; the loop over \<^verbatim>\<open>range(1, 10)\<close> returns at the first depth
  whose name is not in it. The name added to \<^verbatim>\<open>seen\<close> just before the
  \<^verbatim>\<open>return\<close> is lost with the local variable.
\<close>

fun auto_unique_scan ::
  "handler \<Rightarrow> string \<Rightarrow> string set \<Rightarrow> nat list \<Rightarrow> (exn + string) option" where
  "auto_unique_scan self remote_path seen [] = None"
| "auto_unique_scan self remote_path seen (depth # ds) =
     (let local_name =
            str_join ''_''
              (py_slice_from (split_on CHR ''/'' (strip_slash remote_path)) (- int depth))
      in if local_name \<notin> seen then Some (os_path_join [output_dir self, local_name])
         else auto_unique_scan self remote_path seen ds)"

definition auto_unique_path :: "handler \<Rightarrow> string \<Rightarrow> string \<Rightarrow> exn + string" where
  "auto_unique_path self remote_path filename =
     (case auto_unique_scan self remote_path {} [1..<10] of
        Some r \<Rightarrow> r
      | None \<Rightarrow> os_path_join [output_dir self, filename])"

section \<open>The environment: store, filesystem, grid clients\<close>

text \<open>
  What an execution can observe from outside, in the order it happens: log records
  (level and message template; process ids and interpolated paths are left out), and
  the calls of the external clients. \<open>LogDone n_ok total\<close> is the final
  \<^verbatim>\<open>Done. {n_ok}/{len(copy_list)} files downloaded.\<close> record.
\<close>

datatype level = Debug | Info | Warning | Error

datatype event =
    Log level string
  | LogDone nat nat
  | InitConnection
  | Find2 session "string list"
  | XrootdCp session "arg list" "string list" "string list"
  | PoolStart int
  | TGridConnect nat
  | TFileCp nat string string

text \<open>
  The value of \<^verbatim>\<open>ROOT.gGrid\<close> as Python sees it: \<^verbatim>\<open>None\<close>, a null pointer
  proxy (an object that is not \<^verbatim>\<open>None\<close> but is falsy), or a \<^verbatim>\<open>TGrid\<close> object
  with the answer of its \<^verbatim>\<open>IsConnected()\<close>.
\<close>

datatype pygrid = GridNone | GridNull | GridObj bool

fun grid_truthy :: "pygrid \<Rightarrow> bool" where
  "grid_truthy (GridObj _) = True"
| "grid_truthy _ = False"

fun IsConnected :: "pygrid \<Rightarrow> bool" where
  "IsConnected (GridObj b) = b"
| "IsConnected _ = False"

text \<open>
  The external collaborators, as parameters of the model. Their answers are fixed by
  the environment and they are assumed not to raise, except the two alienpy calls that
  the code wraps in \<^verbatim>\<open>try\<close>.
  \<^item> \<open>alien_installed\<close>: the import of \<^verbatim>\<open>alienpy.alien\<close> succeeded;
  \<^item> \<open>init_connection\<close>: the result of \<^verbatim>\<open>alien.InitConnection()\<close>, a session
    or \<^verbatim>\<open>None\<close>;
  \<^item> \<open>do_find2\<close>: \<^verbatim>\<open>alien.DO_find2\<close>; \<open>Inl\<close> is a raised exception,
    \<open>Inr None\<close> a falsy result, \<open>Inr (Some out)\<close> a result with that \<^verbatim>\<open>out\<close> text;
  \<^item> \<open>do_xrootdcp\<close>: \<^verbatim>\<open>alien.DO_XrootdCp\<close>; \<open>Inl\<close> is a raised exception,
    \<open>Inr\<close> a returned value (its exit code), which the code never reads;
  \<^item> \<open>tgrid_connect k\<close>: the value of \<^verbatim>\<open>ROOT.gGrid\<close> after the connection
    attempt number \<open>k\<close> of a worker process;
  \<^item> \<open>tfile_cp\<close>: \<^verbatim>\<open>ROOT.TFile.Cp(src, dst)\<close>, its answer and what it does to the
    filesystem;
  \<^item> \<open>sched\<close>: the worker process that the pool gives job number \<open>i\<close> to.
\<close>

record env =
  alien_installed :: bool
  init_connection :: "session option"
  do_find2 :: "session \<Rightarrow> string list \<Rightarrow> exn + string option"
  do_xrootdcp :: "session \<Rightarrow> arg list \<Rightarrow> string list \<Rightarrow> string list \<Rightarrow> exn + int"
  tgrid_connect :: "nat \<Rightarrow> pygrid"
  tfile_cp :: "string \<Rightarrow> string \<Rightarrow> string set \<Rightarrow> bool \<times> string set"
  sched :: "nat \<Rightarrow> nat"

text \<open>
  The mutable world of the orchestrating process: the store of list objects (with the
  next free address), the set \<open>fs\<close> of the paths for which \<^verbatim>\<open>os.path.exists\<close>
  answers true, and the trace of events so far.
\<close>

record world =
  store :: "addr \<Rightarrow> string list"
  next_addr :: addr
  fs :: "string set"
  trace :: "event list"

definition emit :: "event \<Rightarrow> world \<Rightarrow> world" where
  "emit e w = w\<lparr>trace := trace w @ [e]\<rparr>"

text \<open>
  \<^verbatim>\<open>os.makedirs(d, exist_ok=True)\<close> makes \<open>d\<close> exist. The call is assumed to
  succeed: its failures (an empty path, a file in the way, missing permissions) are
  outside the model, and so are the ancestors of \<open>d\<close>, which no result reads.
\<close>

definition os_makedirs :: "string \<Rightarrow> world \<Rightarrow> world" where
  "os_makedirs d w = w\<lparr>fs := insert d (fs w)\<rparr>"

definition os_path_exists :: "string \<Rightarrow> world \<Rightarrow> bool" where
  "os_path_exists p w = (p \<in> fs w)"

text \<open>
  \<^verbatim>\<open>os.path.dirname\<close> of \<^verbatim>\<open>posixpath\<close>: everything up to the last slash,
  without its trailing slashes unless it consists of slashes only.
\<close>

definition os_path_dirname :: "string \<Rightarrow> string" where
  "os_path_dirname p =
     (let hd_part = rev (dropWhile (\<lambda>c. c \<noteq> CHR ''/'') (rev p)) in
      if hd_part \<noteq> [] \<and> \<not> list_all (\<lambda>c. c = CHR ''/'') hd_part
      then rev (dropWhile (\<lambda>c. c = CHR ''/'') (rev hd_part))
      else hd_part)"

section \<open>Construction of the handler\<close>

text \<open>
  The configuration dictionary: \<open>None\<close> is an absent key. \<open>cfg_keep_depth\<close> can
  be present and \<^verbatim>\<open>None\<close> (a JSON \<^verbatim>\<open>null\<close>), which is \<open>Some None\<close>.
\<close>

record config =
  cfg_backend :: "string option"
  cfg_output_dir :: "string option"
  cfg_remote_files :: "addr option"
  cfg_remote_files_glob :: "(string \<times> string) list option"
  cfg_num_workers :: "int option"
  cfg_keep_depth :: "int option option"
  cfg_alien_xrd_args :: "arg list option"

definition GridHandler_init :: "config \<Rightarrow> world \<Rightarrow> handler \<times> world" where
  "GridHandler_init cfg w =
     (let nw = (case cfg_num_workers cfg of None \<Rightarrow> 16 | Some n \<Rightarrow> n);
          od = (case cfg_output_dir cfg of None \<Rightarrow> ''grid'' | Some d \<Rightarrow> d);
          self = \<lparr>backend = (case cfg_backend cfg of None \<Rightarrow> ''TGrid'' | Some b \<Rightarrow> b),
                  output_dir = od,
                  remote_files = cfg_remote_files cfg,
                  remote_files_glob = cfg_remote_files_glob cfg,
                  num_workers = nw,
                  keep_depth = (case cfg_keep_depth cfg of None \<Rightarrow> Some 5 | Some k \<Rightarrow> k),
                  alien_args =
                    (case cfg_alien_xrd_args cfg of
                       None \<Rightarrow> [Arg ''-timeout'', Arg ''600'', Arg ''-retry'', Arg ''3'']
                     | Some as \<Rightarrow> as) @ [ThreadsArg nw],
                  alien_session = Present None\<rparr>
      in (self, emit (Log Debug ''Initialized GridHandler'') (os_makedirs od w)))"

section \<open>The connection to AliEn\<close>

text \<open>
  \<^verbatim>\<open>_ensure_alien_connection\<close>. It reads \<^verbatim>\<open>self.alien_session\<close>, which raises
  \<open>AttributeError\<close> once the attribute has been deleted, and stores the result of
  \<^verbatim>\<open>alien.InitConnection()\<close> in it.
\<close>

definition ensure_alien_connection ::
  "env \<Rightarrow> handler \<Rightarrow> world \<Rightarrow> exn + (session option \<times> handler \<times> world)" where
  "ensure_alien_connection E self w =
     (if \<not> alien_installed E
      then Inr (None, self, emit (Log Error ''alienpy not installed.'') w)
      else case alien_session self of
             Absent \<Rightarrow> Inl AttributeError
           | Present (Some s) \<Rightarrow> Inr (Some s, self, w)
           | Present None \<Rightarrow>
               (let w1 = emit InitConnection (emit (Log Info ''Connecting to AliEn...'') w);
                    s = init_connection E;
                    self' = self\<lparr>alien_session := Present s\<rparr>;
                    w2 = (if s = None then emit (Log Error ''Failed to connect to AliEn.'') w1
                          else w1)
                in Inr (s, self', w2)))"

section \<open>The per-file backend\<close>

text \<open>
  The URI prefixes that both backends put in front of a path that does not carry them:
  \<^verbatim>\<open>f"alien://{r}" if not r.startswith("alien://") else r\<close> and
  \<^verbatim>\<open>f"file:{l}" if not l.startswith("file:") else l\<close>.
\<close>

definition alien_uri :: "string \<Rightarrow> string" where
  "alien_uri r = (if \<not> startswith r ''alien://'' then ''alien://'' @ r else r)"

definition file_uri :: "string \<Rightarrow> string" where
  "file_uri l = (if \<not> startswith l ''file:'' then ''file:'' @ l else l)"

text \<open>
  The state of one worker process: its module-level \<^verbatim>\<open>_worker_grid_connection\<close>
  (initially \<^verbatim>\<open>None\<close>) and the number of connection attempts it has made, which
  selects the answer of the environment.
\<close>

record worker =
  worker_grid_connection :: pygrid
  attempts :: nat

definition fresh_worker :: worker where
  "fresh_worker = \<lparr>worker_grid_connection = GridNone, attempts = 0\<rparr>"

text \<open>
  \<^verbatim>\<open>_download_tgrid\<close>, run by the worker process \<open>pid\<close>. The global is assigned
  from \<^verbatim>\<open>ROOT.gGrid\<close> before the handle is tested.
\<close>

definition tgrid_copy ::
  "env \<Rightarrow> nat \<Rightarrow> string \<Rightarrow> string \<Rightarrow> world \<Rightarrow> string option \<times> world" where
  "tgrid_copy E pid remote_file local_file w =
     (let src = alien_uri remote_file;
          dst = file_uri local_file;
          w1 = emit (TFileCp pid src dst) (emit (Log Info ''download'') w);
          (ok, fs') = tfile_cp E src dst (fs w1);
          w2 = w1\<lparr>fs := fs'\<rparr>
      in if ok then (Some local_file, w2)
         else (None, emit (Log Error ''Download failed'') w2))"

definition download_tgrid ::
  "env \<Rightarrow> nat \<Rightarrow> string \<Rightarrow> string \<Rightarrow> worker \<times> world \<Rightarrow> string option \<times> worker \<times> world" where
  "download_tgrid E pid remote_file local_file = (\<lambda>(k, w).
     if worker_grid_connection k = GridNone then
       (let w1 = emit (TGridConnect pid) w;
            g = tgrid_connect E (attempts k);
            k1 = k\<lparr>worker_grid_connection := g, attempts := attempts k + 1\<rparr>
        in if \<not> grid_truthy g \<or> \<not> IsConnected g
           then (None, k1, emit (Log Error ''TGrid connection failed'') w1)
           else (let (r, w2) = tgrid_copy E pid remote_file local_file w1 in (r, k1, w2)))
     else (let (r, w2) = tgrid_copy E pid remote_file local_file w in (r, k, w2)))"

text \<open>\<^verbatim>\<open>_download_file\<close>, the function that the pool maps over the copy list.\<close>

definition download_file ::
  "env \<Rightarrow> handler \<Rightarrow> nat \<Rightarrow> string \<times> string \<Rightarrow> worker \<times> world \<Rightarrow>
   string option \<times> worker \<times> world" where
  "download_file E self pid = (\<lambda>(remote_file, local_file) (k, w).
     let w1 = os_makedirs (os_path_dirname local_file) w in
     if os_path_exists local_file w1
     then (Some local_file, k, emit (Log Info ''Skipping existing file'') w1)
     else if backend self = ''TGrid''
     then download_tgrid E pid remote_file local_file (k, w1)
     else if backend self = ''alienpy''
     then (None, k, emit (Log Warning ''alienpy backend does not use multiprocessing'') w1)
     else (None, k, emit (Log Error ''Unknown backend'') w1))"

text \<open>
  \<^verbatim>\<open>pool.map(self._download_file, copy_list)\<close>. Every worker process starts with
  its own \<^verbatim>\<open>_worker_grid_connection = None\<close>; job number \<open>i\<close> runs in the process
  \<open>sched E i mod nw\<close>. The jobs are taken as atomic and in list order: the
  interleaving of concurrent workers on the shared filesystem is not modelled.
\<close>

fun pool_map ::
  "env \<Rightarrow> handler \<Rightarrow> nat \<Rightarrow> nat \<Rightarrow> (string \<times> string) list \<Rightarrow> (nat \<Rightarrow> worker) \<times> world \<Rightarrow>
   string option list \<times> (nat \<Rightarrow> worker) \<times> world" where
  "pool_map E self nw i [] (ks, w) = ([], ks, w)"
| "pool_map E self nw i (job # jobs) (ks, w) =
     (let pid = sched E i mod nw;
          (r, k', w') = download_file E self pid job (ks pid, w);
          (rs, ks', w'') = pool_map E self nw (Suc i) jobs (ks(pid := k'), w')
      in (r # rs, ks', w''))"

section \<open>The batched backend\<close>

text \<open>
  \<^verbatim>\<open>_download_alien\<close>: one \<^verbatim>\<open>DO_XrootdCp\<close> call for the whole batch. The value
  that the call returns is not read; only an exception counts as a failure.
\<close>

definition download_alien ::
  "env \<Rightarrow> handler \<Rightarrow> string list \<Rightarrow> string list \<Rightarrow> world \<Rightarrow> exn + (nat \<times> handler \<times> world)" where
  "download_alien E self remotes locals w =
     (case ensure_alien_connection E self w of
        Inl e \<Rightarrow> Inl e
      | Inr (None, self', w1) \<Rightarrow> Inr (0, self', w1)
      | Inr (Some session, self', w1) \<Rightarrow>
          (let prefixed_remote = map alien_uri remotes;
               prefixed_local = map file_uri locals;
               w2 = emit (XrootdCp session (alien_args self) prefixed_remote prefixed_local)
                      (emit (Log Info ''Starting AliEn download'') w1)
           in case do_xrootdcp E session (alien_args self) prefixed_remote prefixed_local of
                Inl e \<Rightarrow> Inr (0, self', emit (Log Error ''AliEn download failed'') w2)
              | Inr result \<Rightarrow>
                  Inr (length remotes, self',
                       emit (Log Info ''AliEn download finished successfully.'') w2)))"

section \<open>Glob resolution\<close>

text \<open>
  \<^verbatim>\<open>f.strip()\<close> is truthy when \<open>f\<close> has a character that is not whitespace.
  Strings are taken as ASCII text, whose whitespace is the codes 9 to 13 and 28 to 32.
\<close>

definition py_isspace :: "char \<Rightarrow> bool" where
  "py_isspace c = ((9 \<le> (of_char c :: nat) \<and> (of_char c :: nat) \<le> 13)
                   \<or> (28 \<le> (of_char c :: nat) \<and> (of_char c :: nat) \<le> 32))"

definition strip_truthy :: "string \<Rightarrow> bool" where
  "strip_truthy f = (\<not> list_all py_isspace f)"

text \<open>The loop of \<^verbatim>\<open>_resolve_remote_globs\<close> over the \<open>(base, pattern)\<close> pairs.\<close>

fun glob_loop ::
  "env \<Rightarrow> session \<Rightarrow> (string \<times> string) list \<Rightarrow> string list \<times> world \<Rightarrow> string list \<times> world" where
  "glob_loop E session [] (found_files, w) = (found_files, w)"
| "glob_loop E session ((base, pattern) # gs) (found_files, w) =
     (let search_args = [''-glob'', pattern, base];
          w1 = emit (Find2 session search_args) w
      in case do_find2 E session search_args of
           Inl e \<Rightarrow> glob_loop E session gs (found_files, emit (Log Error ''Error during alien find'') w1)
         | Inr None \<Rightarrow> glob_loop E session gs (found_files, emit (Log Warning ''No results'') w1)
         | Inr (Some out) \<Rightarrow>
             (if out = [] then
                glob_loop E session gs (found_files, emit (Log Warning ''No results'') w1)
              else
                (let files = filter strip_truthy (split_on CHR 0x0A out)
                 in glob_loop E session gs (found_files @ files, emit (Log Debug ''Found files'') w1))))"

definition resolve_remote_globs ::
  "env \<Rightarrow> handler \<Rightarrow> world \<Rightarrow> exn + (string list \<times> handler \<times> world)" where
  "resolve_remote_globs E self w =
     (case remote_files_glob self of
        None \<Rightarrow> Inr ([], self, w)
      | Some [] \<Rightarrow> Inr ([], self, w)
      | Some globs \<Rightarrow>
          (if \<not> alien_installed E
           then Inr ([], self, emit (Log Error ''alienpy is required for remote_files_glob'') w)
           else case ensure_alien_connection E self w of
                  Inl e \<Rightarrow> Inl e
                | Inr (None, self', w1) \<Rightarrow> Inr ([], self', w1)
                | Inr (Some session, self', w1) \<Rightarrow>
                    (let (found_files, w2) =
                           glob_loop E session globs
                             ([], emit (Log Info ''Resolving glob search entries'') w1)
                     in Inr (found_files, self', w2))))"

section \<open>The orchestrator\<close>

text \<open>
  What \<^verbatim>\<open>download\<close> can return to its caller: Python's \<^verbatim>\<open>None\<close>, or a pair
  of counts. Every \<^verbatim>\<open>return\<close> of the code is a bare one, and so is falling off
  the end of the function.
\<close>

datatype pyret = PyNone | PyPair nat nat

text \<open>The list that \<^verbatim>\<open>self.remote_files\<close> refers to, \<^verbatim>\<open>None\<close> read as no file.\<close>

definition files_of :: "handler \<Rightarrow> world \<Rightarrow> string list" where
  "files_of self w = (case remote_files self of None \<Rightarrow> [] | Some a \<Rightarrow> store w a)"

text \<open>
  Step 1 of \<^verbatim>\<open>download\<close>: a non-empty list object is extended in place; when
  \<^verbatim>\<open>self.remote_files\<close> is \<^verbatim>\<open>None\<close> or an empty list, the attribute is bound to
  the list of found files instead, a new object of the store.
\<close>

definition rebind_found :: "string list \<Rightarrow> handler \<Rightarrow> world \<Rightarrow> handler \<times> world" where
  "rebind_found found_files self w =
     (self\<lparr>remote_files := Some (next_addr w)\<rparr>,
      w\<lparr>store := (store w)(next_addr w := found_files), next_addr := Suc (next_addr w)\<rparr>)"

definition merge_found :: "string list \<Rightarrow> handler \<Rightarrow> world \<Rightarrow> handler \<times> world" where
  "merge_found found_files self w =
     (if found_files = [] then (self, w)
      else (let w1 = emit (Log Info ''Found files via remote_files_glob'') w in
            case remote_files self of
              None \<Rightarrow> rebind_found found_files self w1
            | Some a \<Rightarrow>
                if store w1 a \<noteq> []
                then (self, w1\<lparr>store := (store w1)(a := store w1 a @ found_files)\<rparr>)
                else rebind_found found_files self w1))"

text \<open>
  Step 2: \<^verbatim>\<open>[(f, self._unique_local_path(f)) for f in self.remote_files]\<close>; the first
  exception of the path mapper ends the comprehension.
\<close>

fun build_copy_list :: "handler \<Rightarrow> string list \<Rightarrow> exn + (string \<times> string) list" where
  "build_copy_list self [] = Inr []"
| "build_copy_list self (f # files) =
     (case unique_local_path self f of
        Inl e \<Rightarrow> Inl e
      | Inr l \<Rightarrow> (case build_copy_list self files of
                    Inl e \<Rightarrow> Inl e
                  | Inr rest \<Rightarrow> Inr ((f, l) # rest)))"

text \<open>
  Step 3 for the backend \<^verbatim>\<open>TGrid\<close>: the attribute \<^verbatim>\<open>alien_session\<close> is
  deleted, then the pool is created (\<^verbatim>\<open>Pool\<close> raises \<open>ValueError\<close> for fewer than
  one process) and mapped over the copy list.
\<close>

definition run_tgrid ::
  "env \<Rightarrow> handler \<Rightarrow> (string \<times> string) list \<Rightarrow> world \<Rightarrow>
   exn + (string option list \<times> handler \<times> world)" where
  "run_tgrid E self copy_list w =
     (let self1 = self\<lparr>alien_session := Absent\<rparr> in
      if num_workers self1 < 1 then Inl ValueError
      else (let (results, ks, w1) =
                  pool_map E self1 (nat (num_workers self1)) 0 copy_list
                    (\<lambda>_. fresh_worker, emit (PoolStart (num_workers self1)) w)
            in Inr (results, self1, w1)))"

definition download :: "env \<Rightarrow> handler \<Rightarrow> world \<Rightarrow> exn + (pyret \<times> handler \<times> world)" where
  "download E self w =
     (case resolve_remote_globs E self w of
        Inl e \<Rightarrow> Inl e
      | Inr (found_files, self1, w1) \<Rightarrow>
          (let (self2, w2) = merge_found found_files self1 w1 in
           if files_of self2 w2 = []
           then Inr (PyNone, self2, emit (Log Warning ''No remote files specified.'') w2)
           else case build_copy_list self2 (files_of self2 w2) of
                  Inl e \<Rightarrow> Inl e
                | Inr copy_list \<Rightarrow>
                    (let w3 = emit (Log Info ''Starting download'') w2 in
                     if backend self2 = ''TGrid'' then
                       (case run_tgrid E self2 copy_list w3 of
                          Inl e \<Rightarrow> Inl e
                        | Inr (results, self3, w4) \<Rightarrow>
                            Inr (PyNone, self3,
                                 emit (LogDone (length (filter (\<lambda>r. r \<noteq> None) results))
                                         (length copy_list)) w4))
                     else if backend self2 = ''alienpy'' then
                       (case download_alien E self2 (map fst copy_list) (map snd copy_list) w3 of
                          Inl e \<Rightarrow> Inl e
                        | Inr (n_ok, self3, w4) \<Rightarrow>
                            Inr (PyNone, self3, emit (LogDone n_ok (length copy_list)) w4))
                     else Inr (PyNone, self2, emit (Log Error ''Unsupported backend'') w3))))"

section \<open>Observing a run\<close>

text \<open>
  The events that hand work to a backend: the start of the worker pool, a connection
  attempt or a copy by a worker, and the batched copy call. Log records and the query
  calls of glob resolution are not among them.
\<close>

fun is_dispatch :: "event \<Rightarrow> bool" where
  "is_dispatch (PoolStart _) = True"
| "is_dispatch (TGridConnect _) = True"
| "is_dispatch (TFileCp _ _ _) = True"
| "is_dispatch (XrootdCp _ _ _ _) = True"
| "is_dispatch _ = False"

text \<open>What a call of \<^verbatim>\<open>download\<close> gives back to its caller, and the trace it leaves.\<close>

definition returned :: "exn + (pyret \<times> handler \<times> world) \<Rightarrow> exn + pyret" where
  "returned r = (case r of Inl e \<Rightarrow> Inl e | Inr (v, self', w') \<Rightarrow> Inr v)"

definition traced :: "exn + (pyret \<times> handler \<times> world) \<Rightarrow> exn + event list" where
  "traced r = (case r of Inl e \<Rightarrow> Inl e | Inr (v, self', w') \<Rightarrow> Inr (trace w'))"

text \<open>Two calls of \<^verbatim>\<open>download\<close> on the same handler object, one after the other.\<close>

definition download_twice ::
  "env \<Rightarrow> handler \<Rightarrow> world \<Rightarrow> exn + (pyret \<times> handler \<times> world)" where
  "download_twice E self w =
     (case download E self w of
        Inl e \<Rightarrow> Inl e
      | Inr (v, self1, w1) \<Rightarrow> download E self1 w1)"

text \<open>
  Every attribute of the handler except \<^verbatim>\<open>alien_session\<close>: what a call that only
  connects to AliEn leaves as it was.
\<close>

definition settings ::
  "handler \<Rightarrow> string \<times> string \<times> addr option \<times> (string \<times> string) list option \<times> int \<times> int option \<times> arg list" where
  "settings self =
     (backend self, output_dir self, remote_files self, remote_files_glob self,
      num_workers self, keep_depth self, alien_args self)"

text \<open>
  The file list of the handler after a call: the reference that \<^verbatim>\<open>remote_files\<close>
  holds, and the content of the list object at the address \<open>a\<close>.
\<close>

definition file_list_state ::
  "exn + (pyret \<times> handler \<times> world) \<Rightarrow> addr \<Rightarrow> exn + (addr option \<times> string list)" where
  "file_list_state r a =
     (case r of Inl e \<Rightarrow> Inl e | Inr (v, self', w') \<Rightarrow> Inr (remote_files self', store w' a))"

text \<open>The count that \<^verbatim>\<open>_download_alien\<close> returns.\<close>

definition batch_count :: "exn + (nat \<times> handler \<times> world) \<Rightarrow> exn + nat" where
  "batch_count r = (case r of Inl e \<Rightarrow> Inl e | Inr (n, self', w') \<Rightarrow> Inr n)"

section \<open>Example instances\<close>

text \<open>
  A handler as the constructor builds it from an empty configuration, used to
  instantiate the results below on concrete inputs.
\<close>

definition grid_handler :: handler where
  "grid_handler = \<lparr>backend = ''TGrid'', output_dir = ''grid'', remote_files = None,
     remote_files_glob = None, num_workers = 16, keep_depth = Some 5,
     alien_args = [Arg ''-timeout'', Arg ''600'', Arg ''-retry'', Arg ''3'', ThreadsArg 16],
     alien_session = Present None\<rparr>"

text \<open>
  An environment in which everything works: alienpy is installed and connects, the
  glob \<^verbatim>\<open>*.root\<close> under \<^verbatim>\<open>/alice\<close> finds two files, the batched copy returns,
  every worker connects, and a copy succeeds and creates its destination file.
\<close>

definition grid_env :: env where
  "grid_env = \<lparr>alien_installed = True,
     init_connection = Some 1,
     do_find2 = (\<lambda>s args. if args = [''-glob'', ''*.root'', ''/alice'']
                   then Inr (Some (''/alice/run1/f.root'' @ [CHR 0x0A] @ ''/alice/run2/f.root'' @ [CHR 0x0A]))
                   else Inr None),
     do_xrootdcp = (\<lambda>s args srcs dsts. Inr 0),
     tgrid_connect = (\<lambda>k. GridObj True),
     tfile_cp = (\<lambda>src dst files. (True, insert (drop 5 dst) files)),
     sched = (\<lambda>i. i)\<rparr>"

text \<open>
  A world whose only list object, at address 0, is empty, and one where it holds one
  remote path; no file exists yet.
\<close>

definition empty_world :: world where
  "empty_world = \<lparr>store = (\<lambda>a. []), next_addr = 1, fs = {}, trace = []\<rparr>"

definition one_file_world :: world where
  "one_file_world = empty_world\<lparr>store := (\<lambda>a. if a = 0 then [''/alice/run1/f.root''] else [])\<rparr>"



definition disconnected_env :: env where
  "disconnected_env = grid_env\<lparr>tgrid_connect := (\<lambda>k. GridObj False)\<rparr>"

text \<open>
  Handlers with the glob \<^verbatim>\<open>*.root\<close> under \<^verbatim>\<open>/alice\<close> and the list object at
  address 0 as their explicit file list.
\<close>

definition glob_handler :: handler where
  "glob_handler = grid_handler\<lparr>remote_files := Some 0,
     remote_files_glob := Some [(''/alice'', ''*.root'')]\<rparr>"


definition two_file_world :: world where
  "two_file_world =
     empty_world\<lparr>store := (\<lambda>a. if a = 0 then [''/alice/run1/f.root'', ''/alice/run2/f.root''] else [])\<rparr>"

text \<open>
  An environment whose batched copy does not raise but returns the exit code 1, the
  client's report that the copy failed.
\<close>

definition failure_code_env :: env where
  "failure_code_env = grid_env\<lparr>do_xrootdcp := (\<lambda>s args srcs dsts. Inr 1)\<rparr>"

section \<open>Properties of the path mapper\<close>

subsection \<open>Auxiliary facts\<close>

lemma split_acc_nonempty: "split_acc c cur s \<noteq> []"
  by (induction s arbitrary: cur) auto

lemma split_on_nonempty: "split_on c s \<noteq> []"
  by (simp add: split_on_def split_acc_nonempty)

lemma py_last_split: "py_last (split_on c s) = Inr (last (split_on c s))"
  using split_on_nonempty [of c s] by (simp add: py_last_def split: list.splits)

lemma endswith_slash_iff: "endswith s ''/'' \<longleftrightarrow> s \<noteq> [] \<and> last s = CHR ''/''"
  by (cases s rule: rev_cases) (auto simp: endswith_def)

lemma join_step_plain:
  "od \<noteq> [] \<Longrightarrow> last od \<noteq> CHR ''/'' \<Longrightarrow> b \<noteq> [] \<Longrightarrow> hd b \<noteq> CHR ''/'' \<Longrightarrow>
   join_step od b = od @ ''/'' @ b"
  by (cases b) (auto simp: join_step_def startswith_def endswith_slash_iff)

subsection \<open>The deduplication fallback\<close>

text \<open>
  Since \<^verbatim>\<open>seen\<close> is empty at the start of every call, the loop of
  \<^verbatim>\<open>_auto_unique_path\<close> returns in its first iteration: the result is always the
  last path segment under the output directory, whatever was returned before.
\<close>

lemma auto_unique_depth_one:
  "auto_unique_path self remote_path filename =
     os_path_join [output_dir self,
       str_join ''_'' (py_slice_from (split_on CHR ''/'' (strip_slash remote_path)) (- 1))]"
  by (simp add: auto_unique_path_def upt_rec)

text \<open>
  Claim C1 says that for the remote paths \<^verbatim>\<open>/x/y/f.root\<close> and \<^verbatim>\<open>/z/y/f.root\<close>,
  which collide at depth 1, the fallback escalates to longer suffixes and returns two
  distinct names. The code returns the same name for both: the join of the output
  directory with \<^verbatim>\<open>f.root\<close>.
\<close>

theorem auto_unique_path_same_name:
  "auto_unique_path self ''/x/y/f.root'' ''f.root'' = Inr (join_step (output_dir self) ''f.root'')
   \<and> auto_unique_path self ''/z/y/f.root'' ''f.root'' = Inr (join_step (output_dir self) ''f.root'')"
  by (simp add: auto_unique_depth_one strip_slash_def split_on_def py_slice_from_def slice_index_def
        os_path_join_def)

subsection \<open>The keep-depth boundary\<close>

text \<open>
  For an output directory that is not empty and does not end with a slash, the path
  \<^verbatim>\<open>/a/b/c/d.root\<close> keeps its whole hierarchy when \<^verbatim>\<open>keep_depth\<close> is unset, and
  its last two directories when \<^verbatim>\<open>keep_depth\<close> is 2.
\<close>

lemma keep_depth_unset_example:
  assumes "output_dir self \<noteq> []" "last (output_dir self) \<noteq> CHR ''/''"
  shows "unique_local_path (self\<lparr>keep_depth := None\<rparr>) ''/a/b/c/d.root''
         = Inr (output_dir self @ ''/a/b/c/d.root'')"
  using assms
  by (simp add: unique_local_path_def strip_slash_def split_on_def py_last_def os_path_join_def
        join_step_plain)

lemma keep_depth_two_example:
  assumes "output_dir self \<noteq> []" "last (output_dir self) \<noteq> CHR ''/''"
  shows "unique_local_path (self\<lparr>keep_depth := Some 2\<rparr>) ''/a/b/c/d.root''
         = Inr (output_dir self @ ''/b/c/d.root'')"
  using assms
  by (simp add: unique_local_path_def strip_slash_def split_on_def py_last_def py_slice_def slice_index_def
        os_path_join_def join_step_plain)

text \<open>
  Claim C2 says that \<^verbatim>\<open>/a/b/c/d.root\<close> maps to \<^verbatim>\<open>output_dir/a/b/c/d.root\<close> when
  \<^verbatim>\<open>keep_depth\<close> is unset, to \<^verbatim>\<open>output_dir/b/c/d.root\<close> when it is 2, and to
  \<^verbatim>\<open>output_dir/d.root\<close> when it is 0. The first two hold (the two lemmas above). With
  \<^verbatim>\<open>keep_depth = 0\<close> the slice \<^verbatim>\<open>parts[-1:-1]\<close> is empty, the inner
  \<^verbatim>\<open>os.path.join\<close> is called without arguments, and the mapper raises \<open>TypeError\<close>
  for every output directory.
\<close>

theorem keep_depth_zero_raises:
  "unique_local_path (self\<lparr>keep_depth := Some 0\<rparr>) ''/a/b/c/d.root'' = Inl TypeError"
  by (simp add: unique_local_path_def strip_slash_def split_on_def py_last_def py_slice_def slice_index_def
        os_path_join_def)

subsection \<open>Fewer directories than the keep-depth\<close>

text \<open>
  A remote path with at least one directory segment and no more than \<^verbatim>\<open>keep_depth\<close>
  of them keeps them all: the slice is clamped, not an error.
\<close>

lemma fewer_directories_all_kept:
  assumes "keep_depth self = Some kd"
    and "parts = split_on CHR ''/'' (strip_slash remote_path)"
    and "2 \<le> length parts" "int (length parts) - 1 \<le> kd"
  shows "unique_local_path self remote_path =
           os_path_join [output_dir self, foldl join_step (hd parts) (tl (butlast parts)), last parts]"
proof -
  have "nat (int (length parts) - 1) = length parts - 1"
    by simp
  then have sl: "py_slice parts (- (kd + 1)) (- 1) = butlast parts"
    using assms(3,4) by (simp add: py_slice_def slice_index_def butlast_conv_take)
  have ne: "butlast parts \<noteq> []"
    using assms(3) by (cases parts) (auto split: if_splits)
  then have "hd (butlast parts) = hd parts"
    by (cases parts) (auto split: if_splits)
  with ne have "os_path_join (butlast parts) = Inr (foldl join_step (hd parts) (tl (butlast parts)))"
    by (cases "butlast parts") (auto simp: os_path_join_def)
  then show ?thesis
    using assms(1,2) sl py_last_split [of "CHR ''/''" "strip_slash remote_path"]
    by (simp add: unique_local_path_def Let_def)
qed

text \<open>
  A remote path without any directory segment raises, for every \<^verbatim>\<open>keep_depth\<close> that
  is not negative.
\<close>

lemma no_directory_raises:
  assumes "keep_depth self = Some kd" "0 \<le> kd"
    and "length (split_on CHR ''/'' (strip_slash remote_path)) = 1"
  shows "unique_local_path self remote_path = Inl TypeError"
  using assms
  by (simp add: unique_local_path_def py_last_split py_slice_def slice_index_def
        os_path_join_def Let_def)

text \<open>
  Claim C3 says that a remote path with fewer directory segments than
  \<^verbatim>\<open>keep_depth\<close> maps without error, in particular a path that is only a filename.
  With the default \<^verbatim>\<open>keep_depth = 5\<close> the path \<^verbatim>\<open>d.root\<close> raises \<open>TypeError\<close>.
\<close>

theorem bare_filename_raises:
  "unique_local_path (self\<lparr>keep_depth := Some 5\<rparr>) ''d.root'' = Inl TypeError"
  by (simp add: unique_local_path_def strip_slash_def split_on_def py_last_def py_slice_def slice_index_def
        os_path_join_def)

subsection \<open>Rejection of malformed input\<close>

text \<open>
  Claim C4 says that the mapper raises exactly when the remote path is empty, and then
  with an invalid-path error. The code has no such check: with \<^verbatim>\<open>keep_depth\<close> unset
  the empty path maps to the output directory followed by a slash, and with the default
  \<^verbatim>\<open>keep_depth\<close> the non-empty path \<^verbatim>\<open>d.root\<close> raises.
\<close>

theorem empty_path_accepted:
  "unique_local_path (grid_handler\<lparr>keep_depth := None\<rparr>) '''' = Inr ''grid/''
   \<and> unique_local_path grid_handler ''d.root'' = Inl TypeError"
  by (simp add: grid_handler_def unique_local_path_def strip_slash_def split_on_def py_last_def py_slice_def
        slice_index_def os_path_join_def join_step_def startswith_def endswith_def)

text \<open>
  Claim C4 as amended: the mapper takes no world and returns none (no I/O), and it
  rejects no input as malformed. With \<^verbatim>\<open>keep_depth\<close> unset it returns a path for
  every remote path, the empty one included; with \<^verbatim>\<open>keep_depth\<close> set it returns a
  path whenever the slice \<^verbatim>\<open>parts[-(keep_depth + 1):-1]\<close> is not empty.
\<close>

theorem unique_local_path_never_rejects:
  assumes "keep_depth self = None \<or>
           (\<exists>kd. keep_depth self = Some kd \<and>
              py_slice (split_on CHR ''/'' (strip_slash remote_path)) (- (kd + 1)) (- 1) \<noteq> [])"
  shows "\<exists>p. unique_local_path self remote_path = Inr p"
  using assms py_last_split [of "CHR ''/''" "strip_slash remote_path"]
  by (auto simp: unique_local_path_def Let_def os_path_join_def split: list.splits)

theorem unique_local_path_never_rejects_witness:
  "(\<exists>p. unique_local_path (grid_handler\<lparr>keep_depth := None\<rparr>) '''' = Inr p)
   \<and> (\<exists>p. unique_local_path grid_handler ''/a/d.root'' = Inr p)"
  using unique_local_path_never_rejects [of "grid_handler\<lparr>keep_depth := None\<rparr>" "''''"]
    unique_local_path_never_rejects [of grid_handler "''/a/d.root''"]
  by (simp add: grid_handler_def strip_slash_def split_on_def py_slice_def slice_index_def)

subsection \<open>Determinism\<close>

text \<open>
  Claim C5: for a fixed output directory and \<^verbatim>\<open>keep_depth\<close>, the local path is a
  function of the remote path alone. The mapper reads no other attribute of the
  handler and no part of the world, so two handlers that agree on the two settings map
  every remote path alike, to the same path or to the same exception.
\<close>

theorem unique_local_path_deterministic:
  assumes "output_dir s1 = output_dir s2" "keep_depth s1 = keep_depth s2"
  shows "unique_local_path s1 remote_path = unique_local_path s2 remote_path"
  unfolding unique_local_path_def assms by (rule refl)

theorem unique_local_path_deterministic_witness:
  "unique_local_path grid_handler ''/a/b/c/d.root''
   = unique_local_path (grid_handler\<lparr>backend := ''alienpy'', remote_files := Some 0,
        num_workers := 4, alien_session := Absent\<rparr>) ''/a/b/c/d.root''"
  using unique_local_path_deterministic [of grid_handler
      "grid_handler\<lparr>backend := ''alienpy'', remote_files := Some 0,
        num_workers := 4, alien_session := Absent\<rparr>" "''/a/b/c/d.root''"]
  by (simp add: grid_handler_def)

section \<open>Properties of the orchestration\<close>

subsection \<open>What glob resolution leaves unchanged\<close>

text \<open>
  Connecting to AliEn and resolving the globs write log records and query events to the
  trace and may set \<^verbatim>\<open>alien_session\<close>; the store, the filesystem, the other
  attributes of the handler and the dispatch events of the trace stay as they were.
\<close>

lemma emit_fields:
  "store (emit e w) = store w" "next_addr (emit e w) = next_addr w"
  "fs (emit e w) = fs w" "trace (emit e w) = trace w @ [e]"
  by (simp_all add: emit_def)

lemma makedirs_fields:
  "store (os_makedirs d w) = store w" "next_addr (os_makedirs d w) = next_addr w"
  "fs (os_makedirs d w) = insert d (fs w)" "trace (os_makedirs d w) = trace w"
  by (simp_all add: os_makedirs_def)

lemma ensure_alien_connection_frame:
  assumes "ensure_alien_connection E self w = Inr (so, self', w')"
  shows "store w' = store w \<and> next_addr w' = next_addr w \<and> fs w' = fs w
         \<and> filter is_dispatch (trace w') = filter is_dispatch (trace w)
         \<and> settings self' = settings self"
proof (cases "alien_installed E")
  case False
  with assms have "self' = self" "w' = emit (Log Error ''alienpy not installed.'') w"
    by (simp_all add: ensure_alien_connection_def)
  then show ?thesis by (simp add: emit_fields)
next
  case True
  show ?thesis
  proof (cases "alien_session self")
    case Absent
    with True assms show ?thesis by (simp add: ensure_alien_connection_def)
  next
    case (Present x)
    show ?thesis
    proof (cases x)
      case None
      with True Present assms show ?thesis
        by (auto simp: ensure_alien_connection_def Let_def emit_fields settings_def
              split: if_splits)
    next
      case (Some s)
      with True Present assms have "self' = self" "w' = w"
        by (simp_all add: ensure_alien_connection_def)
      then show ?thesis by simp
    qed
  qed
qed

lemma glob_loop_step:
  "\<exists>found1 ev. glob_loop E s ((base, pattern) # gs) (found, w)
        = glob_loop E s gs (found1, emit ev (emit (Find2 s [''-glob'', pattern, base]) w))
      \<and> \<not> is_dispatch ev"
proof (cases "do_find2 E s [''-glob'', pattern, base]")
  case (Inl e)
  then show ?thesis
    by (intro exI [of _ found] exI [of _ "Log Error ''Error during alien find''"]) simp
next
  case (Inr r)
  show ?thesis
  proof (cases r)
    case None
    with Inr show ?thesis
      by (intro exI [of _ found] exI [of _ "Log Warning ''No results''"]) simp
  next
    case (Some out)
    show ?thesis
    proof (cases "out = []")
      case True
      with Inr Some show ?thesis
        by (intro exI [of _ found] exI [of _ "Log Warning ''No results''"]) simp
    next
      case False
      with Inr Some show ?thesis
        by (intro exI [of _ "found @ filter strip_truthy (split_on CHR 0x0A out)"]
              exI [of _ "Log Debug ''Found files''"]) (simp add: Let_def)
    qed
  qed
qed

lemma glob_loop_frame:
  "glob_loop E s gs (found, w) = (found', w') \<Longrightarrow>
   store w' = store w \<and> next_addr w' = next_addr w \<and> fs w' = fs w
   \<and> filter is_dispatch (trace w') = filter is_dispatch (trace w)"
proof (induction gs arbitrary: found w)
  case Nil
  then show ?case by simp
next
  case (Cons g gs)
  obtain base pattern where g: "g = (base, pattern)" by (cases g)
  from glob_loop_step [of E s base pattern gs found w] obtain found1 ev where
    st: "glob_loop E s ((base, pattern) # gs) (found, w)
          = glob_loop E s gs (found1, emit ev (emit (Find2 s [''-glob'', pattern, base]) w))"
    and ev: "\<not> is_dispatch ev"
    by blast
  from Cons.prems g st
  have "glob_loop E s gs (found1, emit ev (emit (Find2 s [''-glob'', pattern, base]) w)) = (found', w')"
    by simp
  from Cons.IH [OF this] ev show ?case
    by (simp add: emit_fields)
qed

lemma resolve_remote_globs_frame:
  assumes "resolve_remote_globs E self w = Inr (found, self', w')"
  shows "store w' = store w \<and> next_addr w' = next_addr w \<and> fs w' = fs w
         \<and> filter is_dispatch (trace w') = filter is_dispatch (trace w)
         \<and> settings self' = settings self"
proof (cases "remote_files_glob self")
  case None
  with assms have "self' = self" "w' = w" by (simp_all add: resolve_remote_globs_def)
  then show ?thesis by simp
next
  case (Some globs)
  show ?thesis
  proof (cases "globs = []")
    case True
    with Some assms have "self' = self" "w' = w" by (simp_all add: resolve_remote_globs_def)
    then show ?thesis by simp
  next
    case ne: False
    show ?thesis
    proof (cases "alien_installed E")
      case False
      with Some ne assms have "self' = self"
        "w' = emit (Log Error ''alienpy is required for remote_files_glob'') w"
        by (auto simp: resolve_remote_globs_def split: list.splits)
      then show ?thesis by (simp add: emit_fields)
    next
      case True
      with Some ne assms obtain so s1 w1 where
        e: "ensure_alien_connection E self w = Inr (so, s1, w1)"
        by (auto simp: resolve_remote_globs_def split: list.splits sum.splits)
      note fr = ensure_alien_connection_frame [OF e]
      show ?thesis
      proof (cases so)
        case None
        with True Some ne assms e have "self' = s1" "w' = w1"
          by (auto simp: resolve_remote_globs_def split: list.splits)
        with fr show ?thesis by simp
      next
        case (Some session)
        with True \<open>remote_files_glob self = Some globs\<close> ne assms e
        have "self' = s1" and
          g: "glob_loop E session globs ([], emit (Log Info ''Resolving glob search entries'') w1) = (found, w')"
          by (auto simp: resolve_remote_globs_def split: list.splits prod.splits)
        from glob_loop_frame [OF g] fr \<open>self' = s1\<close> show ?thesis
          by (simp add: emit_fields)
      qed
    qed
  qed
qed

lemma resolve_files_of:
  assumes "resolve_remote_globs E self w = Inr (found, self', w')"
  shows "files_of self' w' = files_of self w"
  using resolve_remote_globs_frame [OF assms]
  by (simp add: files_of_def settings_def split: option.splits)

subsection \<open>Empty input\<close>

text \<open>
  Claim C6 says that \<^verbatim>\<open>download\<close> returns the pair \<open>(0, 0)\<close> when the combined
  file list is empty. For an empty file list and no glob, the call returns
  \<^verbatim>\<open>None\<close>: the code has no \<^verbatim>\<open>return\<close> with a value.
\<close>

theorem download_empty_not_a_pair:
  "returned (download grid_env (grid_handler\<lparr>remote_files := Some 0, remote_files_glob := Some []\<rparr>)
       empty_world) = Inr PyNone
   \<and> returned (download grid_env (grid_handler\<lparr>remote_files := Some 0, remote_files_glob := Some []\<rparr>)
       empty_world) \<noteq> Inr (PyPair 0 0)"
  by (simp add: returned_def download_def resolve_remote_globs_def merge_found_def
        grid_handler_def files_of_def empty_world_def emit_def)

text \<open>
  Claim C6 as amended: when glob resolution finds nothing and the handler's file list
  is empty, \<^verbatim>\<open>download\<close> does not raise, logs the warning
  \<^verbatim>\<open>No remote files specified.\<close> and returns \<^verbatim>\<open>None\<close>; the trace gains no
  dispatch event, so no worker pool is started and no copy is issued.
\<close>

theorem download_empty_returns_none:
  assumes "resolve_remote_globs E self w = Inr ([], self1, w1)"
    and "files_of self w = []"
  shows "download E self w = Inr (PyNone, self1, emit (Log Warning ''No remote files specified.'') w1)
         \<and> filter is_dispatch (trace (emit (Log Warning ''No remote files specified.'') w1))
             = filter is_dispatch (trace w)"
proof -
  from resolve_files_of [OF assms(1)] assms(2) have "files_of self1 w1 = []"
    by simp
  moreover from resolve_remote_globs_frame [OF assms(1)]
  have "filter is_dispatch (trace w1) = filter is_dispatch (trace w)"
    by simp
  ultimately show ?thesis
    using assms(1) by (simp add: download_def merge_found_def emit_fields)
qed

theorem download_empty_returns_none_witness:
  "download grid_env (grid_handler\<lparr>remote_files := Some 0, remote_files_glob := Some []\<rparr>) empty_world
     = Inr (PyNone, grid_handler\<lparr>remote_files := Some 0, remote_files_glob := Some []\<rparr>,
            emit (Log Warning ''No remote files specified.'') empty_world)
   \<and> filter is_dispatch (trace (emit (Log Warning ''No remote files specified.'') empty_world))
       = filter is_dispatch (trace empty_world)"
  using download_empty_returns_none [of grid_env
      "grid_handler\<lparr>remote_files := Some 0, remote_files_glob := Some []\<rparr>" empty_world
      "grid_handler\<lparr>remote_files := Some 0, remote_files_glob := Some []\<rparr>" empty_world]
  by (simp add: resolve_remote_globs_def grid_handler_def files_of_def empty_world_def)

subsection \<open>The connection cache of a worker\<close>

text \<open>
  Once the module-level connection of a worker is not \<^verbatim>\<open>None\<close>, a call goes
  straight to the copy. A failed attempt returns \<^verbatim>\<open>None\<close> after the global was
  assigned.
\<close>

lemma download_tgrid_cached:
  assumes "worker_grid_connection k \<noteq> GridNone"
  shows "download_tgrid E pid remote_file local_file (k, w)
         = (let (r, w') = tgrid_copy E pid remote_file local_file w in (r, k, w'))"
  using assms by (simp add: download_tgrid_def)

lemma download_tgrid_connect_fails:
  assumes "worker_grid_connection k = GridNone"
    and "\<not> grid_truthy (tgrid_connect E (attempts k)) \<or> \<not> IsConnected (tgrid_connect E (attempts k))"
  shows "download_tgrid E pid remote_file local_file (k, w)
         = (None,
            k\<lparr>worker_grid_connection := tgrid_connect E (attempts k), attempts := attempts k + 1\<rparr>,
            emit (Log Error ''TGrid connection failed'') (emit (TGridConnect pid) w))"
  using assms by (auto simp: download_tgrid_def Let_def)

text \<open>
  With one worker whose connection attempt leaves an object that is not connected, the
  first job fails on the connection and the second job is copied through the handle
  that failed, without a new attempt.
\<close>

lemma second_job_copies_without_connection:
  "traced (download disconnected_env (grid_handler\<lparr>remote_files := Some 0, num_workers := 1\<rparr>)
      (empty_world\<lparr>store := (\<lambda>a. [''/alice/run1/f.root'', ''/alice/run2/f.root''])\<rparr>))
   = Inr [Log Info ''Starting download'', PoolStart 1, TGridConnect 0,
          Log Error ''TGrid connection failed'', Log Info ''download'',
          TFileCp 0 ''alien:///alice/run2/f.root'' ''file:grid/alice/run2/f.root'',
          LogDone 1 2]"
  by code_simp

text \<open>
  Claim C8 says that a failed handle is never cached: after a failure the cache is
  empty and the next call in the process connects again. In the code, when the attempt
  leaves in \<^verbatim>\<open>ROOT.gGrid\<close> anything but \<^verbatim>\<open>None\<close> (a null proxy, or an object that
  reports not connected), the call returns \<^verbatim>\<open>None\<close> with that handle stored in
  the cache, and every later call of the process skips the connection and its test and
  calls the copy primitive.
\<close>

theorem failed_handle_stays_cached:
  assumes "worker_grid_connection k = GridNone"
    and "tgrid_connect E (attempts k) = g" and "g \<noteq> GridNone"
    and "\<not> grid_truthy g \<or> \<not> IsConnected g"
  shows "\<exists>k1 w1. download_tgrid E pid remote_file local_file (k, w) = (None, k1, w1)
           \<and> worker_grid_connection k1 = g
           \<and> filter is_dispatch (trace w1) = filter is_dispatch (trace w) @ [TGridConnect pid]
           \<and> (\<forall>remote2 local2 w2. download_tgrid E pid remote2 local2 (k1, w2)
                 = (let (r, w3) = tgrid_copy E pid remote2 local2 w2 in (r, k1, w3)))"
proof -
  define k1 where "k1 = k\<lparr>worker_grid_connection := g, attempts := attempts k + 1\<rparr>"
  define w1 where "w1 = emit (Log Error ''TGrid connection failed'') (emit (TGridConnect pid) w)"
  have "download_tgrid E pid remote_file local_file (k, w) = (None, k1, w1)"
    using download_tgrid_connect_fails [of k E pid remote_file local_file w] assms
    by (simp add: k1_def w1_def)
  moreover have c: "worker_grid_connection k1 = g"
    by (simp add: k1_def)
  moreover have "filter is_dispatch (trace w1) = filter is_dispatch (trace w) @ [TGridConnect pid]"
    by (simp add: w1_def emit_fields)
  moreover have "\<forall>remote2 local2 w2. download_tgrid E pid remote2 local2 (k1, w2)
                 = (let (r, w3) = tgrid_copy E pid remote2 local2 w2 in (r, k1, w3))"
    using c assms(3) by (simp add: download_tgrid_cached)
  ultimately show ?thesis by blast
qed

theorem failed_handle_stays_cached_witness:
  "\<exists>k1 w1. download_tgrid disconnected_env 0 ''/alice/run1/f.root'' ''grid/alice/run1/f.root''
               (fresh_worker, empty_world) = (None, k1, w1)
           \<and> worker_grid_connection k1 = GridObj False
           \<and> filter is_dispatch (trace w1) = filter is_dispatch (trace empty_world) @ [TGridConnect 0]
           \<and> (\<forall>remote2 local2 w2. download_tgrid disconnected_env 0 remote2 local2 (k1, w2)
                 = (let (r, w3) = tgrid_copy disconnected_env 0 remote2 local2 w2 in (r, k1, w3)))"
  using failed_handle_stays_cached [of fresh_worker disconnected_env "GridObj False" 0
      "''/alice/run1/f.root''" "''grid/alice/run1/f.root''" empty_world]
  by (simp add: fresh_worker_def disconnected_env_def grid_env_def)

subsection \<open>The batched backend\<close>

text \<open>
  The count that \<^verbatim>\<open>_download_alien\<close> returns is decided by the session and by
  the one client call; the call leaves store and filesystem of the model as they were.
  \<^verbatim>\<open>download\<close> with the backend \<^verbatim>\<open>alienpy\<close> writes that count into its final
  log record.
\<close>

lemma download_alien_result:
  assumes "ensure_alien_connection E self w = Inr (so, self1, w1)"
  shows "\<exists>w'. download_alien E self remotes locals w
           = Inr ((case so of
                     None \<Rightarrow> 0
                   | Some s \<Rightarrow>
                       (case do_xrootdcp E s (alien_args self) (map alien_uri remotes) (map file_uri locals) of
                          Inl e \<Rightarrow> 0
                        | Inr v \<Rightarrow> length remotes)), self1, w')
         \<and> store w' = store w \<and> next_addr w' = next_addr w \<and> fs w' = fs w"
proof (cases so)
  case None
  with assms ensure_alien_connection_frame [OF assms] show ?thesis
    by (simp add: download_alien_def)
next
  case (Some s)
  show ?thesis
  proof (cases "do_xrootdcp E s (alien_args self) (map alien_uri remotes) (map file_uri locals)")
    case (Inl e)
    with Some assms ensure_alien_connection_frame [OF assms] show ?thesis
      by (simp add: download_alien_def Let_def emit_fields)
  next
    case (Inr v)
    with Some assms ensure_alien_connection_frame [OF assms] show ?thesis
      by (simp add: download_alien_def Let_def emit_fields)
  qed
qed

lemma merge_found_settings:
  assumes "merge_found found self w = (self', w')"
  shows "backend self' = backend self \<and> output_dir self' = output_dir self
         \<and> keep_depth self' = keep_depth self \<and> num_workers self' = num_workers self
         \<and> alien_args self' = alien_args self \<and> alien_session self' = alien_session self
         \<and> remote_files_glob self' = remote_files_glob self
         \<and> fs w' = fs w \<and> filter is_dispatch (trace w') = filter is_dispatch (trace w)"
  using assms
  by (auto simp: merge_found_def rebind_found_def Let_def emit_fields
        split: if_splits option.splits)

lemma download_alienpy:
  assumes be: "backend self = ''alienpy''"
    and rs: "resolve_remote_globs E self w = Inr (found, self1, w1)"
    and mf: "merge_found found self1 w1 = (self2, w2)"
    and ne: "files_of self2 w2 \<noteq> []"
    and cl: "build_copy_list self2 (files_of self2 w2) = Inr copy_list"
    and da: "download_alien E self2 (map fst copy_list) (map snd copy_list)
               (emit (Log Info ''Starting download'') w2) = Inr (n_ok, self3, w4)"
  shows "download E self w = Inr (PyNone, self3, emit (LogDone n_ok (length copy_list)) w4)"
proof -
  from resolve_remote_globs_frame [OF rs] have "backend self1 = backend self"
    by (simp add: settings_def)
  with merge_found_settings [OF mf] be have b2: "backend self2 = ''alienpy''"
    by simp
  then have "backend self2 \<noteq> ''TGrid''" by simp
  with b2 rs mf ne cl da show ?thesis
    by (simp add: download_def)
qed

lemma download_alien_zero_or_all:
  assumes "download_alien E self remotes locals w = Inr (n, self', w')"
  shows "n = 0 \<or> n = length remotes"
proof (cases "ensure_alien_connection E self w")
  case (Inl e)
  with assms show ?thesis by (simp add: download_alien_def)
next
  case (Inr t)
  obtain so self1 w1 where t: "t = (so, self1, w1)" by (cases t)
  from download_alien_result [of E self w so self1 w1 remotes locals] Inr t assms
  show ?thesis
    by (auto split: option.splits sum.splits)
qed

text \<open>
  What the batched backend counts. For remote and local sequences of equal length,
  \<^verbatim>\<open>_download_alien\<close> returns 0 when no session is available or the client call
  raises, and the length of the batch when the call returns, whatever it returns;
  \<^verbatim>\<open>download\<close> reports exactly the returned count, which is 0 or the number of
  files, as the number of successes.
\<close>

theorem batch_is_all_or_nothing:
  "(length remotes = length locals \<and> ensure_alien_connection E self w = Inr (so, self', w1) \<longrightarrow>
      (\<exists>n w'. download_alien E self remotes locals w = Inr (n, self', w')
         \<and> (so = None \<longrightarrow> n = 0)
         \<and> (\<forall>s. so = Some s \<longrightarrow>
               (case do_xrootdcp E s (alien_args self) (map alien_uri remotes) (map file_uri locals) of
                  Inl e \<Rightarrow> n = 0
                | Inr v \<Rightarrow> n = length remotes \<and> n = length locals))))
   \<and> (backend h = ''alienpy'' \<and> resolve_remote_globs E h u = Inr (found, h1, u1)
        \<and> merge_found found h1 u1 = (h2, u2) \<and> files_of h2 u2 \<noteq> []
        \<and> build_copy_list h2 (files_of h2 u2) = Inr copy_list
        \<and> download_alien E h2 (map fst copy_list) (map snd copy_list)
             (emit (Log Info ''Starting download'') u2) = Inr (n_ok, h3, u3) \<longrightarrow>
      download E h u = Inr (PyNone, h3, emit (LogDone n_ok (length copy_list)) u3)
      \<and> (n_ok = 0 \<or> n_ok = length copy_list))"
proof (intro conjI impI)
  assume a: "length remotes = length locals \<and> ensure_alien_connection E self w = Inr (so, self', w1)"
  then have conn: "ensure_alien_connection E self w = Inr (so, self', w1)" by simp
  from download_alien_result [OF conn, of remotes locals] a
  show "\<exists>n w'. download_alien E self remotes locals w = Inr (n, self', w')
         \<and> (so = None \<longrightarrow> n = 0)
         \<and> (\<forall>s. so = Some s \<longrightarrow>
               (case do_xrootdcp E s (alien_args self) (map alien_uri remotes) (map file_uri locals) of
                  Inl e \<Rightarrow> n = 0
                | Inr v \<Rightarrow> n = length remotes \<and> n = length locals))"
    by (auto split: sum.splits)
next
  assume b: "backend h = ''alienpy'' \<and> resolve_remote_globs E h u = Inr (found, h1, u1)
        \<and> merge_found found h1 u1 = (h2, u2) \<and> files_of h2 u2 \<noteq> []
        \<and> build_copy_list h2 (files_of h2 u2) = Inr copy_list
        \<and> download_alien E h2 (map fst copy_list) (map snd copy_list)
             (emit (Log Info ''Starting download'') u2) = Inr (n_ok, h3, u3)"
  then show "download E h u = Inr (PyNone, h3, emit (LogDone n_ok (length copy_list)) u3)"
    using download_alienpy [of h E u found h1 u1 h2 u2 copy_list n_ok h3 u3] by blast
next
  assume b: "backend h = ''alienpy'' \<and> resolve_remote_globs E h u = Inr (found, h1, u1)
        \<and> merge_found found h1 u1 = (h2, u2) \<and> files_of h2 u2 \<noteq> []
        \<and> build_copy_list h2 (files_of h2 u2) = Inr copy_list
        \<and> download_alien E h2 (map fst copy_list) (map snd copy_list)
             (emit (Log Info ''Starting download'') u2) = Inr (n_ok, h3, u3)"
  then have "download_alien E h2 (map fst copy_list) (map snd copy_list)
             (emit (Log Info ''Starting download'') u2) = Inr (n_ok, h3, u3)" by simp
  from download_alien_zero_or_all [OF this] show "n_ok = 0 \<or> n_ok = length copy_list"
    by simp
qed

theorem batch_is_all_or_nothing_witness:
  "(\<exists>w'. download_alien grid_env (grid_handler\<lparr>backend := ''alienpy'', remote_files := Some 0\<rparr>)
            [''/alice/run1/f.root''] [''grid/alice/run1/f.root''] one_file_world
          = Inr (1, grid_handler\<lparr>backend := ''alienpy'', remote_files := Some 0,
                      alien_session := Present (Some 1)\<rparr>, w'))
   \<and> (\<exists>h3 u3. download grid_env (grid_handler\<lparr>backend := ''alienpy'', remote_files := Some 0\<rparr>)
                  one_file_world = Inr (PyNone, h3, emit (LogDone 1 1) u3))"
proof -
  let ?h = "grid_handler\<lparr>backend := ''alienpy'', remote_files := Some 0\<rparr>"
  let ?h' = "grid_handler\<lparr>backend := ''alienpy'', remote_files := Some 0,
                      alien_session := Present (Some 1)\<rparr>"
  let ?w1 = "emit InitConnection (emit (Log Info ''Connecting to AliEn...'') one_file_world)"
  let ?u2 = "emit (Log Info ''Starting download'') one_file_world"
  let ?u3 = "emit InitConnection (emit (Log Info ''Connecting to AliEn...'') ?u2)"
  have conn: "ensure_alien_connection grid_env ?h one_file_world = Inr (Some 1, ?h', ?w1)"
    by (simp add: ensure_alien_connection_def grid_env_def grid_handler_def Let_def)
  have cp: "do_xrootdcp grid_env 1 (alien_args ?h) (map alien_uri [''/alice/run1/f.root''])
              (map file_uri [''grid/alice/run1/f.root'']) = Inr 0"
    by (simp add: grid_env_def)
  have rs: "resolve_remote_globs grid_env ?h one_file_world = Inr ([], ?h, one_file_world)"
    by (simp add: resolve_remote_globs_def grid_handler_def)
  have mf: "merge_found [] ?h one_file_world = (?h, one_file_world)"
    by (simp add: merge_found_def)
  have fo: "files_of ?h one_file_world = [''/alice/run1/f.root'']"
    by (simp add: files_of_def one_file_world_def empty_world_def)
  have cl: "build_copy_list ?h [''/alice/run1/f.root'']
            = Inr [(''/alice/run1/f.root'', ''grid/alice/run1/f.root'')]"
    by code_simp
  have be: "backend ?h = ''alienpy''" by simp
  from batch_is_all_or_nothing [of "[''/alice/run1/f.root'']" "[''grid/alice/run1/f.root'']"
      grid_env ?h one_file_world "Some 1" ?h' ?w1] conn cp
  have a: "\<exists>w'. download_alien grid_env ?h [''/alice/run1/f.root'']
            [''grid/alice/run1/f.root''] one_file_world = Inr (1, ?h', w')"
    by auto
  have "\<exists>n h3 u3. download_alien grid_env ?h [''/alice/run1/f.root'']
            [''grid/alice/run1/f.root''] ?u2 = Inr (n, h3, u3) \<and> n = 1"
    by (simp add: download_alien_def ensure_alien_connection_def grid_env_def grid_handler_def
          Let_def)
  then obtain h3 u3 where da: "download_alien grid_env ?h [''/alice/run1/f.root'']
            [''grid/alice/run1/f.root''] ?u2 = Inr (1, h3, u3)" by blast
  from batch_is_all_or_nothing [of "[''/alice/run1/f.root'']" "[''grid/alice/run1/f.root'']"
      grid_env ?h one_file_world "Some 1" ?h' ?w1 ?h one_file_world "[]" ?h one_file_world
      ?h one_file_world "[(''/alice/run1/f.root'', ''grid/alice/run1/f.root'')]" 1 h3 u3]
    be rs mf fo cl da
  have "download grid_env ?h one_file_world = Inr (PyNone, h3, emit (LogDone 1 1) u3)"
    by simp
  with a show ?thesis by blast
qed

text \<open>
  Claim C9 says that the batched backend is all-or-nothing: the count is 0 when the
  session is unavailable or the single client call fails, and the batch length when
  the call succeeds. The code reads a raised exception as the only failure. When
  \<^verbatim>\<open>DO_XrootdCp\<close> returns with the exit code 1, its report that the copy failed,
  \<^verbatim>\<open>_download_alien\<close> returns 2 for a batch of two files, logs that the download
  finished successfully, and \<^verbatim>\<open>download\<close> reports 2 of 2 files.
\<close>

theorem returned_failure_counts_as_success:
  "do_xrootdcp failure_code_env 1
       (alien_args (grid_handler\<lparr>backend := ''alienpy'', remote_files := Some 0\<rparr>))
       [''alien:///alice/run1/f.root'', ''alien:///alice/run2/f.root'']
       [''file:grid/alice/run1/f.root'', ''file:grid/alice/run2/f.root''] = Inr 1
   \<and> batch_count (download_alien failure_code_env
        (grid_handler\<lparr>backend := ''alienpy'', remote_files := Some 0\<rparr>)
        [''/alice/run1/f.root'', ''/alice/run2/f.root'']
        [''grid/alice/run1/f.root'', ''grid/alice/run2/f.root''] two_file_world) = Inr 2
   \<and> traced (download failure_code_env
        (grid_handler\<lparr>backend := ''alienpy'', remote_files := Some 0\<rparr>) two_file_world)
     = Inr [Log Info ''Starting download'', Log Info ''Connecting to AliEn...'', InitConnection,
            Log Info ''Starting AliEn download'',
            XrootdCp 1 [Arg ''-timeout'', Arg ''600'', Arg ''-retry'', Arg ''3'', ThreadsArg 16]
              [''alien:///alice/run1/f.root'', ''alien:///alice/run2/f.root'']
              [''file:grid/alice/run1/f.root'', ''file:grid/alice/run2/f.root''],
            Log Info ''AliEn download finished successfully.'', LogDone 2 2]"
  by code_simp

subsection \<open>What a call leaves behind in the handler\<close>

text \<open>
  The merge of the found files either extends the list object of the handler or binds
  the attribute to a new object; nothing after the merge writes to the store or to
  \<^verbatim>\<open>remote_files\<close>. In \<^verbatim>\<open>run_tgrid\<close> the handler that the pool receives is the
  one without \<^verbatim>\<open>alien_session\<close>.
\<close>

lemma merge_found_files:
  assumes "merge_found found self w = (self', w')"
  shows "files_of self' w' = files_of self w @ found"
  using assms
  by (auto simp: merge_found_def rebind_found_def files_of_def Let_def emit_fields
        split: if_splits option.splits)

lemma merge_found_in_place:
  assumes "merge_found found self w = (self', w')" "files_of self w \<noteq> []"
  shows "remote_files self' = remote_files self"
  using assms
  by (auto simp: merge_found_def rebind_found_def files_of_def Let_def emit_fields
        split: if_splits option.splits)

lemma merge_found_rebind:
  assumes "merge_found found self w = (self', w')" "found \<noteq> []" "files_of self w = []"
  shows "remote_files self' = Some (next_addr w) \<and> (\<forall>a. a \<noteq> next_addr w \<longrightarrow> store w' a = store w a)"
  using assms
  by (auto simp: merge_found_def rebind_found_def files_of_def Let_def emit_fields
        split: if_splits option.splits)

lemma tgrid_copy_store:
  "tgrid_copy E pid r l w = (res, w') \<Longrightarrow> store w' = store w"
  by (auto simp: tgrid_copy_def Let_def emit_fields split: prod.splits if_splits)

lemma download_tgrid_store:
  "download_tgrid E pid r l (k, w) = (res, k', w') \<Longrightarrow> store w' = store w"
  by (auto simp: download_tgrid_def Let_def emit_fields split: prod.splits if_splits
        dest: tgrid_copy_store)

lemma download_file_store:
  "download_file E self pid job (k, w) = (res, k', w') \<Longrightarrow> store w' = store w"
  by (cases job)
     (auto simp: download_file_def Let_def emit_fields makedirs_fields split: if_splits
        dest: download_tgrid_store)

lemma pool_map_store:
  "pool_map E self nw i jobs (ks, w) = (rs, ks', w') \<Longrightarrow> store w' = store w"
proof (induction jobs arbitrary: i ks w rs ks' w')
  case Nil
  then show ?case by simp
next
  case (Cons job jobs)
  obtain r k1 w1 where st: "download_file E self (sched E i mod nw) job (ks (sched E i mod nw), w) = (r, k1, w1)"
    by (metis prod_cases3)
  obtain rs1 ks1 w2 where rest:
    "pool_map E self nw (Suc i) jobs (ks(sched E i mod nw := k1), w1) = (rs1, ks1, w2)"
    by (metis prod_cases3)
  from Cons.prems st rest have "w' = w2" by (simp add: Let_def)
  with Cons.IH [OF rest] download_file_store [OF st] show ?case by simp
qed

lemma run_tgrid_frame:
  assumes "run_tgrid E self jobs w = Inr (rs, self', w')"
  shows "store w' = store w \<and> self' = self\<lparr>alien_session := Absent\<rparr>"
proof -
  obtain rs1 ks1 w1 where pm:
    "pool_map E (self\<lparr>alien_session := Absent\<rparr>) (nat (num_workers self)) 0 jobs
       (\<lambda>_. fresh_worker, emit (PoolStart (num_workers self)) w) = (rs1, ks1, w1)"
    by (metis prod_cases3)
  with assms have "w' = w1" "self' = self\<lparr>alien_session := Absent\<rparr>"
    by (auto simp: run_tgrid_def Let_def split: if_splits)
  with pool_map_store [OF pm] show ?thesis by (simp add: emit_fields)
qed

lemma download_alien_frame:
  assumes "download_alien E self remotes locals w = Inr (n, self', w')"
  shows "store w' = store w \<and> settings self' = settings self"
proof (cases "ensure_alien_connection E self w")
  case (Inl e)
  with assms show ?thesis by (simp add: download_alien_def)
next
  case (Inr t)
  obtain so self1 w1 where t: "t = (so, self1, w1)" by (cases t)
  from download_alien_result [of E self w so self1 w1 remotes locals] Inr t assms
    ensure_alien_connection_frame [of E self w so self1 w1]
  show ?thesis by auto
qed

lemma download_final_state:
  assumes dl: "download E self w = Inr (v, self', w')"
    and rs: "resolve_remote_globs E self w = Inr (found, self1, w1)"
    and mf: "merge_found found self1 w1 = (self2, w2)"
  shows "remote_files self' = remote_files self2 \<and> store w' = store w2
         \<and> (backend self = ''TGrid'' \<and> files_of self2 w2 \<noteq> [] \<longrightarrow> alien_session self' = Absent)"
proof (cases "files_of self2 w2 = []")
  case True
  with dl rs mf show ?thesis by (auto simp: download_def emit_fields)
next
  case ne: False
  from resolve_remote_globs_frame [OF rs] merge_found_settings [OF mf]
  have be: "backend self2 = backend self" by (simp add: settings_def)
  from dl rs mf ne obtain copy_list where cl: "build_copy_list self2 (files_of self2 w2) = Inr copy_list"
    by (auto simp: download_def split: sum.splits)
  show ?thesis
  proof (cases "backend self2 = ''TGrid''")
    case True
    with dl rs mf ne cl obtain rs1 w4 where
      rt: "run_tgrid E self2 copy_list (emit (Log Info ''Starting download'') w2) = Inr (rs1, self', w4)"
      and w': "w' = emit (LogDone (length (filter (\<lambda>r. r \<noteq> None) rs1)) (length copy_list)) w4"
      by (auto simp: download_def split: sum.splits)
    from run_tgrid_frame [OF rt] w' show ?thesis by (simp add: emit_fields)
  next
    case ntg: False
    show ?thesis
    proof (cases "backend self2 = ''alienpy''")
      case True
      with ntg dl rs mf ne cl obtain n_ok w4 where
        da: "download_alien E self2 (map fst copy_list) (map snd copy_list)
               (emit (Log Info ''Starting download'') w2) = Inr (n_ok, self', w4)"
        and w': "w' = emit (LogDone n_ok (length copy_list)) w4"
        by (auto simp: download_def split: sum.splits)
      from download_alien_frame [OF da] w' ntg be show ?thesis
        by (simp add: emit_fields settings_def)
    next
      case False
      with ntg dl rs mf ne cl be show ?thesis
        by (auto simp: download_def emit_fields)
    qed
  qed
qed

text \<open>
  Claim C10 says that every glob-resolved path is appended in place to the list object
  supplied in the configuration, and that a second call of \<^verbatim>\<open>download\<close> on the
  same handler therefore operates on the extended list. When the configured list is
  empty, the list object at address 0 is still empty after the call and the attribute
  refers to a new object; and with the backend \<^verbatim>\<open>TGrid\<close> and a glob, the second
  call raises \<open>AttributeError\<close> at the read of the deleted \<^verbatim>\<open>alien_session\<close>,
  before it reads any file list.
\<close>

theorem second_call_raises:
  "file_list_state (download grid_env glob_handler empty_world) 0 = Inr (Some 1, [])
   \<and> traced (download_twice grid_env glob_handler one_file_world) = Inl AttributeError"
  by code_simp

text \<open>
  Claim C10 as amended: \<^verbatim>\<open>download\<close> is not read-only on the handler. After a
  call that returns, the file list of the handler is the list it had followed by the
  glob-resolved paths: appended in place to the list object it refers to when that
  list was not empty, and otherwise by binding \<^verbatim>\<open>remote_files\<close> to a new list
  object, no existing list object being changed. With the backend \<^verbatim>\<open>TGrid\<close> and a
  non-empty file list, \<^verbatim>\<open>alien_session\<close> is deleted from the handler. A later call
  on the same handler that gets to read the file list reads the extended one.
\<close>

theorem download_extends_the_file_list:
  assumes "download E self w = Inr (v, self', w')"
    and "resolve_remote_globs E self w = Inr (found, self1, w1)"
  shows "files_of self' w' = files_of self w @ found
       \<and> (found \<noteq> [] \<and> files_of self w \<noteq> [] \<longrightarrow> remote_files self' = remote_files self)
       \<and> (found \<noteq> [] \<and> files_of self w = [] \<longrightarrow>
            remote_files self' = Some (next_addr w)
            \<and> (\<forall>a. a \<noteq> next_addr w \<longrightarrow> store w' a = store w a))
       \<and> (backend self = ''TGrid'' \<and> files_of self' w' \<noteq> [] \<longrightarrow> alien_session self' = Absent)"
proof -
  obtain self2 w2 where mf: "merge_found found self1 w1 = (self2, w2)"
    by (cases "merge_found found self1 w1")
  note fin = download_final_state [OF assms mf]
  note fr = resolve_remote_globs_frame [OF assms(2)]
  have f1: "files_of self1 w1 = files_of self w"
    by (rule resolve_files_of [OF assms(2)])
  have same: "files_of self' w' = files_of self2 w2"
    using fin by (simp add: files_of_def split: option.splits)
  have a: "files_of self' w' = files_of self w @ found"
    using same merge_found_files [OF mf] f1 by simp
  have rf1: "remote_files self1 = remote_files self"
    using fr by (simp add: settings_def)
  have b: "found \<noteq> [] \<and> files_of self w \<noteq> [] \<longrightarrow> remote_files self' = remote_files self"
    using merge_found_in_place [OF mf] f1 fin rf1 by simp
  have c: "found \<noteq> [] \<and> files_of self w = [] \<longrightarrow>
            remote_files self' = Some (next_addr w)
            \<and> (\<forall>a. a \<noteq> next_addr w \<longrightarrow> store w' a = store w a)"
    using merge_found_rebind [OF mf] f1 fin fr by simp
  have d: "backend self = ''TGrid'' \<and> files_of self' w' \<noteq> [] \<longrightarrow> alien_session self' = Absent"
    using fin same by simp
  from a b c d show ?thesis by blast
qed

theorem download_extends_the_file_list_witness:
  "(\<exists>self' w'. download grid_env glob_handler one_file_world = Inr (PyNone, self', w')
       \<and> files_of self' w' = [''/alice/run1/f.root'', ''/alice/run1/f.root'', ''/alice/run2/f.root'']
       \<and> remote_files self' = Some 0 \<and> alien_session self' = Absent)
   \<and> (\<exists>self' w'. download grid_env glob_handler empty_world = Inr (PyNone, self', w')
       \<and> files_of self' w' = [''/alice/run1/f.root'', ''/alice/run2/f.root'']
       \<and> remote_files self' = Some 1 \<and> store w' 0 = [])"
proof -
  have be: "backend glob_handler = ''TGrid''"
    by (simp add: glob_handler_def grid_handler_def)
  have "returned (download grid_env glob_handler one_file_world) = Inr PyNone"
    by code_simp
  then obtain s1 u1 where d1: "download grid_env glob_handler one_file_world = Inr (PyNone, s1, u1)"
    by (auto simp: returned_def split: sum.splits)
  have "map_sum id fst (resolve_remote_globs grid_env glob_handler one_file_world)
        = Inr [''/alice/run1/f.root'', ''/alice/run2/f.root'']"
    by code_simp
  then obtain a1 b1 where r1: "resolve_remote_globs grid_env glob_handler one_file_world
        = Inr ([''/alice/run1/f.root'', ''/alice/run2/f.root''], a1, b1)"
    by (cases "resolve_remote_globs grid_env glob_handler one_file_world") auto
  have f1: "files_of glob_handler one_file_world = [''/alice/run1/f.root'']"
    by code_simp
  from download_extends_the_file_list [OF d1 r1] f1 be
  have one: "files_of s1 u1 = [''/alice/run1/f.root'', ''/alice/run1/f.root'', ''/alice/run2/f.root'']
       \<and> remote_files s1 = Some 0 \<and> alien_session s1 = Absent"
    by (simp add: glob_handler_def)
  have "returned (download grid_env glob_handler empty_world) = Inr PyNone"
    by code_simp
  then obtain s2 u2 where d2: "download grid_env glob_handler empty_world = Inr (PyNone, s2, u2)"
    by (auto simp: returned_def split: sum.splits)
  have "map_sum id fst (resolve_remote_globs grid_env glob_handler empty_world)
        = Inr [''/alice/run1/f.root'', ''/alice/run2/f.root'']"
    by code_simp
  then obtain a2 b2 where r2: "resolve_remote_globs grid_env glob_handler empty_world
        = Inr ([''/alice/run1/f.root'', ''/alice/run2/f.root''], a2, b2)"
    by (cases "resolve_remote_globs grid_env glob_handler empty_world") auto
  have f2: "files_of glob_handler empty_world = []"
    by code_simp
  have n2: "next_addr empty_world = 1" "store empty_world 0 = []"
    by (simp_all add: empty_world_def)
  from download_extends_the_file_list [OF d2 r2] f2 n2
  have two: "files_of s2 u2 = [''/alice/run1/f.root'', ''/alice/run2/f.root'']
       \<and> remote_files s2 = Some 1 \<and> store u2 0 = []"
    by simp
  from d1 one d2 two show ?thesis by blast
qed

subsection \<open>Files that are already present\<close>











end
